theory Spec2Isabelle
  imports Main
begin

section \<open>Bytecode generation for value reconstruction (torch/\_dynamo/codegen.py)\<close>

text \<open>
  A shallow embedding of the class \<open>PyCodegen\<close>. The mutable attributes of a
  \<open>PyCodegen\<close> object, together with the parts of the tracing context that its methods
  update (\<open>code_options\<close>), form the record \<open>codegen\<close>; every method is a function that
  takes the state and returns an outcome: a result with the new state, or the exception
  raised with the state as it was at the raise.
\<close>

subsection \<open>Python values and instructions\<close>

datatype pyval =
    PyNone
  | PyInt int
  | PyBool bool
  | PyStr string
  | PyTuple "pyval list"
  | PyObj nat

text \<open>
  The dataclass \<open>Instruction\<close>: an opcode name, the raw argument and the symbolic
  argument value. An absent argument (\<open>None\<close>, or no \<open>argval\<close> given) is \<open>None\<close>.
\<close>

record instruction =
  opname :: string
  arg :: "int option"
  argval :: "pyval option"

text \<open>
  Modelled from the spec: \<open>bytecode_transformation.create_instruction\<close> and
  \<open>create_load_const\<close> are imported by codegen.py and are not among the sources. An
  instruction is built from its opcode name, raw argument and symbolic argument value;
  a constant load carries the constant as its symbolic argument.
\<close>

definition create_instruction :: "string \<Rightarrow> int option \<Rightarrow> pyval option \<Rightarrow> instruction" where
  "create_instruction name a av = \<lparr>opname = name, arg = a, argval = av\<rparr>"

definition create_load_const :: "pyval \<Rightarrow> instruction" where
  "create_load_const c = create_instruction ''LOAD_CONST'' None (Some c)"

subsection \<open>The state of a code generation session\<close>

text \<open>
  Tracked values are Python objects: \<open>is\<close>, the keys of \<open>tempvars\<close> and \<open>uses\<close>
  (\<open>VariableTracker\<close> defines no equality, so hashing is by identity) and \<open>id(...)\<close> all
  go through the identity of an object, a natural number here. The dictionary
  \<open>graph_outputs\<close> keeps insertion order and is an association list.
\<close>

record GraphOutputEntry =
  index :: nat
  variable :: nat

record codegen =
  top_of_stack :: "nat option"
  uses :: "nat \<Rightarrow> nat"
  graph_outputs :: "(nat \<times> GraphOutputEntry) list"
  cg_output :: "instruction list"
  tempvars :: "nat \<rightharpoonup> string option"
  value_from_source :: bool
  co_varnames :: "string list"
  co_names :: "string list"
  unique_var_id :: nat

datatype exn =
    AssertionError
  | NotImplementedError
  | AttributeError
  | KeyError
  | IndexError
  | Unsupported string
  | OtherError string

datatype 'a outcome =
    Returns 'a codegen
  | Raises exn codegen

definition andthen :: "'a outcome \<Rightarrow> ('a \<Rightarrow> codegen \<Rightarrow> 'b outcome) \<Rightarrow> 'b outcome" where
  "andthen m f = (case m of Returns x st \<Rightarrow> f x st | Raises e st \<Rightarrow> Raises e st)"

fun state_of :: "'a outcome \<Rightarrow> codegen" where
  "state_of (Returns x st) = st"
| "state_of (Raises e st) = st"

subsection \<open>The instruction stream\<close>

text \<open>\<open>self._output.append(inst)\<close> and \<open>self._output.extend(insts)\<close>, on the list itself.\<close>

definition output_append :: "instruction \<Rightarrow> codegen \<Rightarrow> codegen" where
  "output_append inst st = st\<lparr>cg_output := cg_output st @ [inst]\<rparr>"

definition output_extend :: "instruction list \<Rightarrow> codegen \<Rightarrow> codegen" where
  "output_extend insts st = st\<lparr>cg_output := cg_output st @ insts\<rparr>"

definition clear_tos :: "codegen \<Rightarrow> codegen" where
  "clear_tos st = st\<lparr>top_of_stack := None\<rparr>"

definition append_output :: "instruction \<Rightarrow> codegen \<Rightarrow> codegen" where
  "append_output inst st = clear_tos (output_append inst st)"

definition extend_output :: "instruction list \<Rightarrow> codegen \<Rightarrow> codegen" where
  "extend_output insts st = clear_tos (output_extend insts st)"

definition get_instructions :: "codegen \<Rightarrow> instruction list" where
  "get_instructions st = cg_output st"

text \<open>
  The first test of the dispatcher, \<open>self.top_of_stack is value\<close>, for the tracked value
  whose identity is \<open>i\<close>.
\<close>

definition top_of_stack_is :: "codegen \<Rightarrow> nat \<Rightarrow> bool" where
  "top_of_stack_is st i = (top_of_stack st = Some i)"

subsection \<open>Tracked values, sources and the session's collaborators\<close>

text \<open>
  A \<open>Source\<close> and a \<open>VariableTracker\<close> come from modules that are not among the
  sources; codegen.py reads the attributes below and calls \<open>reconstruct(codegen)\<close>, which
  is any routine over the session (it may call back into the dispatcher and the
  instruction stream): a function from the state to an outcome carrying the Python value
  the routine returned. A \<open>Source\<close> is a frozen dataclass, compared by value: its key.
\<close>

record source =
  source_key :: nat
  source_reconstruct :: "codegen \<Rightarrow> pyval outcome"

datatype vt_class =
    TensorWithTFOverrideVariable
  | SymNodeVariable
  | TensorVariable
  | UnspecializedPythonVariable
  | NumpyNdarrayVariable
  | NNModuleVariable
  | FunctionDecoratedByContextlibContextManagerVariable
  | OtherVariable

datatype mutation =
    ValueMutationNew
  | ValueMutationExisting
  | AttributeMutationNew
  | AttributeMutationExisting

text \<open>
  \<open>python_constant\<close> is \<open>Some c\<close> when \<open>is_python_constant()\<close> holds, with
  \<open>c = as_python_constant()\<close>; \<open>proxy_id\<close> is \<open>id(value.as_proxy())\<close>;
  \<open>python_type_float\<close> is \<open>value.python_type() == float\<close>; \<open>vt_str\<close> is what the
  f-string \<open>f"{value}"\<close> prints.
\<close>

record variable_tracker =
  vt_id :: nat
  vt_class :: vt_class
  source :: "source option"
  mutation_type :: "mutation option"
  python_constant :: "pyval option"
  proxy_id :: nat
  python_type_float :: bool
  need_unwrap :: bool
  module_key :: string
  reconstruct :: "codegen \<Rightarrow> pyval outcome"
  vt_str :: string

text \<open>The argument of the dispatcher: a \<open>Source\<close> or a \<open>VariableTracker\<close>.\<close>

datatype tracked =
    Src source
  | VT variable_tracker

text \<open>
  What a session is constructed with and never changes (\<open>root\<close>, \<open>graph_output_var\<close>,
  \<open>overridden_sources\<close>, \<open>tx.export\<close>, \<open>sys.version_info\<close> as major and minor), and
  the functions codegen.py imports from modules that are not among the sources
  (bytecode\_transformation, utils, the tracer \<open>tx\<close>, methods of the values), taken as
  parameters. \<open>bc_add_push_null\<close> is the function \<open>add_push_null\<close> of
  bytecode\_transformation, which the method of the same name calls.
\<close>

record env =
  version_info :: "nat \<times> nat"
  root :: "pyval option"
  graph_output_var :: "string option"
  overridden_sources :: "nat \<rightharpoonup> source"
  tx_export :: bool
  create_dup_top :: instruction
  create_call_function :: "nat \<Rightarrow> bool \<Rightarrow> instruction list"
  create_rot_n :: "int \<Rightarrow> exn + instruction list"
  bc_add_push_null :: "instruction list \<Rightarrow> instruction list"
  add_push_null_call_function_ex :: "instruction list \<Rightarrow> instruction list"
  is_safe_constant :: "pyval \<Rightarrow> bool"
  rot_n_helper :: "int \<Rightarrow> pyval"
  new_var :: "nat \<Rightarrow> string list \<Rightarrow> string \<times> nat \<times> string list"
  import_source :: "string \<Rightarrow> codegen \<Rightarrow> source outcome"
  AttrSource :: "source \<Rightarrow> string \<Rightarrow> source"
  as_tensor :: "variable_tracker \<Rightarrow> variable_tracker"
  global_mangled_class_name :: "variable_tracker \<Rightarrow> string"

text \<open>
  \<open>sys.version_info < (3, 13)\<close> and \<open>sys.version_info >= (3, 13)\<close>: the comparison of
  tuples, on major and minor.
\<close>

fun version_lt :: "nat \<times> nat \<Rightarrow> nat \<times> nat \<Rightarrow> bool" where
  "version_lt (a, b) (c, d) = (a < c \<or> (a = c \<and> b < d))"

definition version_ge :: "nat \<times> nat \<Rightarrow> nat \<times> nat \<Rightarrow> bool" where
  "version_ge v w = (\<not> version_lt v w)"

subsection \<open>Names of locals, globals and attributes\<close>

definition create_load :: "string \<Rightarrow> codegen \<Rightarrow> exn + instruction" where
  "create_load name st =
     (if name \<in> set (co_varnames st)
      then Inr (create_instruction ''LOAD_FAST'' None (Some (PyStr name)))
      else Inl AssertionError)"

definition create_store :: "string \<Rightarrow> codegen \<Rightarrow> exn + instruction" where
  "create_store name st =
     (if name \<in> set (co_varnames st)
      then Inr (create_instruction ''STORE_FAST'' None (Some (PyStr name)))
      else Inl AssertionError)"

text \<open>
  Modelled from the spec: \<open>tx.output.update_co_names\<close> is not among the sources; it
  registers a global name that is not yet in the globals set.
\<close>

definition update_co_names :: "string \<Rightarrow> codegen \<Rightarrow> codegen" where
  "update_co_names name st =
     (if name \<in> set (co_names st) then st else st\<lparr>co_names := co_names st @ [name]\<rparr>)"

definition create_load_global :: "string \<Rightarrow> bool \<Rightarrow> codegen \<Rightarrow> instruction outcome" where
  "create_load_global name add st =
     (let st1 = (if add then update_co_names name st else st)
      in if name \<in> set (co_names st1)
         then Returns (create_instruction ''LOAD_GLOBAL'' None (Some (PyStr name))) st1
         else Raises AssertionError st1)"

definition create_load_const_unchecked :: "pyval \<Rightarrow> instruction" where
  "create_load_const_unchecked c = create_load_const c"

definition create_load_attr :: "string \<Rightarrow> codegen \<Rightarrow> instruction \<times> codegen" where
  "create_load_attr name st =
     (create_instruction ''LOAD_ATTR'' None (Some (PyStr name)),
      if name \<notin> set (co_names st) then st\<lparr>co_names := co_names st @ [name]\<rparr> else st)"

text \<open>\<open>output.append(self.create_load_attr(name))\<close>, and the loop over the parts of a path.\<close>

definition append_load_attr :: "string \<Rightarrow> codegen \<Rightarrow> codegen" where
  "append_load_attr name st =
     (case create_load_attr name st of (inst, st1) \<Rightarrow> output_append inst st1)"

fun append_load_attrs :: "string list \<Rightarrow> codegen \<Rightarrow> codegen" where
  "append_load_attrs [] st = st"
| "append_load_attrs (part # parts) st = append_load_attrs parts (append_load_attr part st)"

text \<open>\<open>str.split(c)\<close>: never an empty list; the empty string gives one empty part.\<close>

fun split_on :: "char \<Rightarrow> string \<Rightarrow> string list" where
  "split_on c [] = [[]]"
| "split_on c (x # xs) =
     (if x = c then [] # split_on c xs
      else (case split_on c xs of [] \<Rightarrow> [[x]] | p # ps \<Rightarrow> (x # p) # ps))"

subsection \<open>Graph outputs and temporaries\<close>

definition add_graph_output :: "variable_tracker \<Rightarrow> codegen \<Rightarrow> nat \<times> codegen" where
  "add_graph_output v st =
     (let graph_outputs_key = proxy_id v
      in (graph_outputs_key,
          if graph_outputs_key \<notin> fst ` set (graph_outputs st)
          then st\<lparr>graph_outputs := graph_outputs st @
                 [(graph_outputs_key,
                   \<lparr>index = length (graph_outputs st), variable = vt_id v\<rparr>)]\<rparr>
          else st))"

text \<open>\<open>graph_outputs[graph_outputs_key].index\<close>: a missing key raises \<open>KeyError\<close>.\<close>

definition graph_output_index :: "nat \<Rightarrow> codegen \<Rightarrow> nat outcome" where
  "graph_output_index k st =
     (case map_of (graph_outputs st) k of
        None \<Rightarrow> Raises KeyError st
      | Some entry \<Rightarrow> Returns (index entry) st)"

definition graph_output_vars :: "codegen \<Rightarrow> nat list" where
  "graph_output_vars st = map (\<lambda>x. variable (snd x)) (graph_outputs st)"

definition load_graph_output :: "env \<Rightarrow> nat \<Rightarrow> codegen \<Rightarrow> unit outcome" where
  "load_graph_output env idx st =
     (case graph_output_var env of
        None \<Rightarrow> Raises AssertionError st
      | Some name \<Rightarrow>
          (case create_load name st of
             Inl e \<Rightarrow> Raises e st
           | Inr inst \<Rightarrow>
               Returns ()
                 (output_append (create_instruction ''BINARY_SUBSCR'' None None)
                   (output_append (create_load_const (PyInt (int idx)))
                     (output_append inst st)))))"

definition add_cache :: "env \<Rightarrow> variable_tracker \<Rightarrow> codegen \<Rightarrow> unit outcome" where
  "add_cache env v st =
     (case new_var env (unique_var_id st) (co_varnames st) of
        (var, uid, names) \<Rightarrow>
          (let st1 = st\<lparr>unique_var_id := uid, co_varnames := names,
                         tempvars := (tempvars st)(vt_id v \<mapsto> Some var)\<rparr>
           in case create_store var st1 of
                Inl e \<Rightarrow> Raises e st1
              | Inr inst \<Rightarrow> Returns () (output_append inst st1)))"

text \<open>\<open>self.tempvars.get(value)\<close>: \<open>None\<close> for a missing key and for a key mapped to \<open>None\<close>.\<close>

definition tempvars_get :: "codegen \<Rightarrow> nat \<Rightarrow> string option" where
  "tempvars_get st i = (case tempvars st i of None \<Rightarrow> None | Some slot \<Rightarrow> slot)"

subsection \<open>Reconstruction through sources and the null placeholder\<close>

definition call_reconstruct :: "tracked \<Rightarrow> codegen \<Rightarrow> unit outcome" where
  "call_reconstruct v st =
     andthen (case v of Src s \<Rightarrow> source_reconstruct s st | VT vt \<Rightarrow> reconstruct vt st)
       (\<lambda>res st1. if res = PyNone then Returns () st1 else Raises AssertionError st1)"

text \<open>The branch \<open>isinstance(value, Source)\<close> of the dispatcher.\<close>

definition call_source :: "env \<Rightarrow> source \<Rightarrow> codegen \<Rightarrow> unit outcome" where
  "call_source env v st =
     (let src = (case overridden_sources env (source_key v) of None \<Rightarrow> v | Some s \<Rightarrow> s)
      in andthen (call_reconstruct (Src src) st) (\<lambda>_ st1. Returns () (clear_tos st1)))"

text \<open>
  \<open>self(AttrSource(self.tx.import_source(module_name), object_name))\<close>: the argument is a
  \<open>Source\<close>, so the dispatcher takes its first branch.
\<close>

definition load_import_from :: "env \<Rightarrow> string \<Rightarrow> string \<Rightarrow> codegen \<Rightarrow> unit outcome" where
  "load_import_from env module_name object_name st =
     andthen (import_source env module_name st)
       (\<lambda>base st1. call_source env (AttrSource env base object_name) st1)"

text \<open>
  \<open>gen_fn\<close> is any routine over the session. The instructions after the first
  \<open>old_len\<close> are cut off the stream and put back as the imported function returns them.
\<close>

definition add_push_null ::
  "env \<Rightarrow> (codegen \<Rightarrow> 'a outcome) \<Rightarrow> bool \<Rightarrow> codegen \<Rightarrow> unit outcome" where
  "add_push_null env gen_fn call_function_ex st =
     (let old_len = length (cg_output st);
          st0 = (if version_lt (version_info env) (3, 13) then clear_tos st else st)
      in andthen (gen_fn st0)
           (\<lambda>_ st1.
              let added_insts = drop old_len (cg_output st1);
                  st2 = st1\<lparr>cg_output := take old_len (cg_output st1)\<rparr>;
                  st3 = (if call_function_ex
                         then output_extend (add_push_null_call_function_ex env added_insts) st2
                         else output_extend (bc_add_push_null env added_insts) st2)
              in Returns ()
                   (if version_ge (version_info env) (3, 13) then clear_tos st3 else st3)))"

subsection \<open>The dispatcher\<close>

text \<open>
  Modelled from the spec: \<open>exc.unimplemented\<close> is not among the sources; it raises the
  reconstruction-unsupported error with the message it is given.
\<close>

definition unimplemented :: "string \<Rightarrow> codegen \<Rightarrow> 'a outcome" where
  "unimplemented msg st = Raises (Unsupported msg) st"

definition utils_name :: string where
  "utils_name = ''torch._dynamo.utils''"

text \<open>
  The chain of \<open>if\<close>/\<open>elif\<close> of \<open>__call__\<close> that chooses by the kind of the value, in
  the order of the source; the last branch is the structural reconstruction.
\<close>

definition load_graph_output_item :: "env \<Rightarrow> nat \<Rightarrow> codegen \<Rightarrow> unit outcome" where
  "load_graph_output_item env graph_outputs_key st =
     andthen (graph_output_index graph_outputs_key st) (\<lambda>idx st1.
     andthen (load_graph_output env idx st1) (\<lambda>_ st2.
     Returns () (append_load_attr ''item'' st2)))"

definition codegen_structural :: "env \<Rightarrow> variable_tracker \<Rightarrow> bool \<Rightarrow> codegen \<Rightarrow> unit outcome" where
  "codegen_structural env v allow_cache st =
     (case call_reconstruct (VT v) (st\<lparr>uses := (uses st)(vt_id v := uses st (vt_id v) + 1)\<rparr>) of
        Raises e st1 \<Rightarrow>
          if e = NotImplementedError then unimplemented (''reconstruct: '' @ vt_str v) st1
          else Raises e st1
      | Returns _ st1 \<Rightarrow>
          if allow_cache \<and> vt_id v \<in> dom (tempvars st1)
          then add_cache env v (output_append (create_dup_top env) st1)
          else Returns () st1)"

text \<open>
  \<open>value.is_python_constant() and is_safe_constant(value.as_python_constant())\<close>, with
  the constant when it holds.
\<close>

definition safe_constant :: "env \<Rightarrow> variable_tracker \<Rightarrow> pyval option" where
  "safe_constant env v =
     (case python_constant v of
        None \<Rightarrow> None
      | Some c \<Rightarrow> if is_safe_constant env c then Some c else None)"

definition dispatch_kind :: "env \<Rightarrow> variable_tracker \<Rightarrow> bool \<Rightarrow> codegen \<Rightarrow> unit outcome" where
  "dispatch_kind env v allow_cache st =
     (case safe_constant env v of
        Some c \<Rightarrow> Returns () (output_append (create_load_const c) st)
      | None \<Rightarrow>
      if vt_class v = TensorWithTFOverrideVariable then
        (case add_graph_output v st of (graph_outputs_key, st1) \<Rightarrow>
           andthen (add_push_null env (load_import_from env utils_name ''to_subclass'') False st1)
             (\<lambda>_ st2.
           andthen (graph_output_index graph_outputs_key st2) (\<lambda>idx st3.
           andthen (load_graph_output env idx st3) (\<lambda>_ st4.
           andthen (create_load_global (global_mangled_class_name env v) True st4) (\<lambda>inst st5.
           Returns () (output_extend (create_call_function env 2 False)
                        (output_append inst st5)))))))
      else if vt_class v = SymNodeVariable \<and> python_type_float v \<and> \<not> tx_export env then
        (case add_graph_output (as_tensor env v) st of (graph_outputs_key, st1) \<Rightarrow>
           andthen (add_push_null env (load_graph_output_item env graph_outputs_key) False st1)
             (\<lambda>_ st2.
           Returns () (output_extend (create_call_function env 0 False) st2)))
      else if vt_class v \<in> {TensorVariable, SymNodeVariable, UnspecializedPythonVariable,
                              NumpyNdarrayVariable} then
        (case add_graph_output v st of (graph_outputs_key, st1) \<Rightarrow>
           if vt_class v = NumpyNdarrayVariable then
             andthen (add_push_null env (load_import_from env utils_name ''to_numpy_helper'')
                        False st1) (\<lambda>_ st2.
             andthen (graph_output_index graph_outputs_key st2) (\<lambda>idx st3.
             andthen (load_graph_output env idx st3) (\<lambda>_ st4.
             Returns () (output_extend (create_call_function env 1 False) st4))))
           else if vt_class v = UnspecializedPythonVariable \<and> need_unwrap v then
             andthen (add_push_null env (load_graph_output_item env graph_outputs_key) False st1)
               (\<lambda>_ st2.
             Returns () (output_extend (create_call_function env 0 False) st2))
           else
             andthen (graph_output_index graph_outputs_key st1) (\<lambda>idx st2.
             load_graph_output env idx st2))
      else if vt_class v = NNModuleVariable then
        (case split_on CHR ''.'' (module_key v) of
           [] \<Rightarrow> Raises IndexError st
         | p # parts \<Rightarrow>
             if p \<in> set (co_varnames st) then
               (case create_load p st of
                  Inl e \<Rightarrow> Raises e st
                | Inr inst \<Rightarrow> Returns () (append_load_attrs parts (output_append inst st)))
             else
               (case root env of
                  None \<Rightarrow> Raises AssertionError st
                | Some r \<Rightarrow>
                    Returns () (append_load_attrs (p # parts)
                      (output_append (create_load_const_unchecked r) st))))
      else codegen_structural env v allow_cache st)"

text \<open>
  \<open>PyCodegen.__call__\<close>: the branch for a \<open>Source\<close>; the two cache paths under
  \<open>allow_cache\<close>; the preference for the value's source; the choice by kind, after which
  the top-of-stack descriptor is the value.
\<close>

definition call :: "env \<Rightarrow> tracked \<Rightarrow> bool \<Rightarrow> codegen \<Rightarrow> unit outcome" where
  "call env v allow_cache st =
     (case v of
        Src s \<Rightarrow> call_source env s st
      | VT vt \<Rightarrow>
          if allow_cache \<and> top_of_stack_is st (vt_id vt) then
            Returns () (output_append (create_dup_top env) st)
          else
            (case (if allow_cache then tempvars_get st (vt_id vt) else None) of
               Some name \<Rightarrow>
                 (case create_load name st of
                    Inl e \<Rightarrow> Raises e st
                  | Inr inst \<Rightarrow>
                      Returns () ((output_append inst st)\<lparr>top_of_stack := Some (vt_id vt)\<rparr>))
             | None \<Rightarrow>
                 (case (if allow_cache
                          \<and> vt_class vt \<noteq> FunctionDecoratedByContextlibContextManagerVariable
                          \<and> (mutation_type vt = Some ValueMutationExisting
                              \<or> value_from_source st)
                        then source vt else None) of
                    Some s \<Rightarrow> call_source env s st
                  | None \<Rightarrow>
                      andthen (dispatch_kind env vt allow_cache st)
                        (\<lambda>_ st1. Returns () (st1\<lparr>top_of_stack := Some (vt_id vt)\<rparr>)))))"

fun foreach :: "env \<Rightarrow> tracked list \<Rightarrow> codegen \<Rightarrow> unit outcome" where
  "foreach env [] st = Returns () st"
| "foreach env (i # items) st = andthen (call env i True st) (\<lambda>_ st1. foreach env items st1)"

text \<open>\<open>try: ... finally: self.value_from_source = prev\<close> runs on both ways out.\<close>

definition restore_stack :: "env \<Rightarrow> tracked list \<Rightarrow> bool \<Rightarrow> codegen \<Rightarrow> unit outcome" where
  "restore_stack env stack_values vfs st =
     (let prev = value_from_source st;
          st1 = st\<lparr>value_from_source := (value_from_source st \<and> vfs)\<rparr>
      in case foreach env stack_values st1 of
           Returns x st2 \<Rightarrow> Returns x (st2\<lparr>value_from_source := prev\<rparr>)
         | Raises e st2 \<Rightarrow> Raises e (st2\<lparr>value_from_source := prev\<rparr>))"

subsection \<open>Rotation\<close>

definition rot_n :: "env \<Rightarrow> int \<Rightarrow> exn + instruction list" where
  "rot_n env n =
     (case create_rot_n env n of
        Inr insts \<Rightarrow> Inr insts
      | Inl e \<Rightarrow>
          if e = AttributeError then
            (case create_rot_n env 2 of
               Inl e2 \<Rightarrow> Inl e2
             | Inr swap \<Rightarrow>
                 Inr ([create_instruction ''BUILD_TUPLE'' (Some n) None,
                       create_load_const_unchecked (rot_n_helper env n)]
                      @ swap
                      @ [create_instruction ''CALL_FUNCTION_EX'' (Some 0) None,
                         create_instruction ''UNPACK_SEQUENCE'' (Some n) None]))
          else Inl e)"

subsection \<open>Sessions and sequences of requests\<close>

text \<open>
  \<open>PyCodegen.__init__\<close>: an empty stream, no graph outputs, nothing on top of the stack,
  the prefer-source flag set; \<open>tempvars\<close> and the name tables are the caller's.
\<close>

definition init_codegen ::
  "(nat \<rightharpoonup> string option) \<Rightarrow> string list \<Rightarrow> string list \<Rightarrow> codegen" where
  "init_codegen tempvars0 varnames names =
     \<lparr>top_of_stack = None, uses = (\<lambda>_. 0), graph_outputs = [], cg_output = [],
      tempvars = tempvars0, value_from_source = True,
      co_varnames = varnames, co_names = names, unique_var_id = 0\<rparr>"

text \<open>Requesting a graph output slot for each value of a list, in order.\<close>

fun add_graph_outputs :: "variable_tracker list \<Rightarrow> codegen \<Rightarrow> codegen" where
  "add_graph_outputs [] st = st"
| "add_graph_outputs (v # vs) st = add_graph_outputs vs (snd (add_graph_output v st))"

definition graph_outputs_ok :: "(nat \<times> GraphOutputEntry) list \<Rightarrow> bool" where
  "graph_outputs_ok gos =
     (distinct (map fst gos) \<and> map (\<lambda>x. index (snd x)) gos = [0..<length gos])"

text \<open>
  A tracked value with no source, no mutation and no constant, whose \<open>reconstruct\<close> is
  the one of the base class (it raises \<open>NotImplementedError\<close>); the concrete values of the
  examples below are updates of it.
\<close>

definition plain_value :: "nat \<Rightarrow> vt_class \<Rightarrow> variable_tracker" where
  "plain_value i c =
     \<lparr>vt_id = i, vt_class = c, source = None, mutation_type = None, python_constant = None,
      proxy_id = i, python_type_float = False, need_unwrap = False, module_key = [],
      reconstruct = (\<lambda>st. Raises NotImplementedError st), vt_str = ''value''\<rparr>"

subsection \<open>Which path the dispatcher takes\<close>

text \<open>
  The conditions of \<open>__call__\<close> on a tracked value, named: the value's source is
  preferred; the request is served from the source (caching allowed, no cache path
  taken); the request reaches the choice by kind; none of the specialised kinds matches.
\<close>

definition prefers_source :: "variable_tracker \<Rightarrow> codegen \<Rightarrow> bool" where
  "prefers_source v st =
     (source v \<noteq> None
      \<and> vt_class v \<noteq> FunctionDecoratedByContextlibContextManagerVariable
      \<and> (mutation_type v = Some ValueMutationExisting \<or> value_from_source st))"

definition served_from_source :: "variable_tracker \<Rightarrow> bool \<Rightarrow> codegen \<Rightarrow> bool" where
  "served_from_source v allow_cache st =
     (allow_cache \<and> \<not> top_of_stack_is st (vt_id v) \<and> tempvars_get st (vt_id v) = None
      \<and> prefers_source v st)"

definition served_by_kind :: "variable_tracker \<Rightarrow> bool \<Rightarrow> codegen \<Rightarrow> bool" where
  "served_by_kind v allow_cache st =
     (if allow_cache
      then \<not> top_of_stack_is st (vt_id v) \<and> tempvars_get st (vt_id v) = None
           \<and> \<not> prefers_source v st
      else True)"

definition structural_kind :: "env \<Rightarrow> variable_tracker \<Rightarrow> bool" where
  "structural_kind env v =
     (safe_constant env v = None
      \<and> (vt_class v = FunctionDecoratedByContextlibContextManagerVariable
          \<or> vt_class v = OtherVariable))"

subsection \<open>The null placeholder, from the spec\<close>

text \<open>
  Modelled from the spec: the functions \<open>add_push_null\<close> and
  \<open>add_push_null_call_function_ex\<close> of bytecode\_transformation, which splice the null
  placeholder into the instructions of a callable, are not among the sources. The spec
  (4.3) says, for both modes of the method: no placeholder in generation A (before 3.11);
  a placeholder pushed immediately before the instructions in generation B (3.11 and
  3.12) and after them in generation C (3.13 and later); and, if the callable-loading
  instruction supports an embedded null-push bit, that bit is preferred over a separate
  instruction. The spec does not say which of the instructions loads the callable, nor
  how the bit is written: \<open>bit_site\<close> gives the position of the callable-loading
  instruction when it carries a bit (\<open>None\<close> when there is none), \<open>with_bit\<close> is the
  instruction with its bit set; both are parameters.
\<close>

definition push_null :: instruction where
  "push_null = create_instruction ''PUSH_NULL'' None None"

definition null_bit_index ::
  "(instruction list \<Rightarrow> nat option) \<Rightarrow> instruction list \<Rightarrow> nat option" where
  "null_bit_index bit_site insts =
     (case bit_site insts of
        None \<Rightarrow> None
      | Some i \<Rightarrow> if i < length insts then Some i else None)"

definition spec_add_push_null ::
  "nat \<times> nat \<Rightarrow> (instruction list \<Rightarrow> nat option) \<Rightarrow> (instruction \<Rightarrow> instruction)
   \<Rightarrow> instruction list \<Rightarrow> instruction list" where
  "spec_add_push_null ver bit_site with_bit insts =
     (if version_lt ver (3, 11) then insts
      else
        (case null_bit_index bit_site insts of
           Some i \<Rightarrow> insts[i := with_bit (insts ! i)]
         | None \<Rightarrow>
             if version_ge ver (3, 13) then insts @ [push_null] else push_null # insts))"

subsection \<open>A concrete session for the examples\<close>

text \<open>
  A source that loads a local variable, an environment for a Python version with plain
  stand-ins for the imported functions, and a structural value whose \<open>reconstruct\<close>
  emits one instruction. They are the concrete inputs of the examples that follow the
  theorems.
\<close>

definition local_source :: "nat \<Rightarrow> string \<Rightarrow> source" where
  "local_source k name =
     \<lparr>source_key = k,
      source_reconstruct = (\<lambda>st.
        case create_load name st of
          Inl e \<Rightarrow> Raises e st
        | Inr inst \<Rightarrow> Returns PyNone (append_output inst st))\<rparr>"

definition example_has_bit :: "nat \<times> nat \<Rightarrow> instruction \<Rightarrow> bool" where
  "example_has_bit ver inst =
     ((opname inst = ''LOAD_GLOBAL'' \<and> version_ge ver (3, 11))
      \<or> (opname inst = ''LOAD_ATTR'' \<and> version_ge ver (3, 12))
      \<or> opname inst = ''LOAD_SUPER_ATTR'')"

definition example_set_bit :: "instruction \<Rightarrow> instruction" where
  "example_set_bit inst = inst\<lparr>arg := Some 1\<rparr>"

text \<open>
  In the example the bit is looked for on the instruction next to the place of the
  placeholder: the last one from 3.13 on, the first one before; for a call with an
  unpacked argument list only \<open>LOAD_GLOBAL\<close> counts.
\<close>

definition example_bit_site :: "nat \<times> nat \<Rightarrow> bool \<Rightarrow> instruction list \<Rightarrow> nat option" where
  "example_bit_site ver call_function_ex insts =
     (if insts = [] then None
      else
        (let i = (if version_ge ver (3, 13) then length insts - 1 else 0)
         in if example_has_bit ver (insts ! i)
               \<and> (if call_function_ex then opname (insts ! i) = ''LOAD_GLOBAL'' else True)
            then Some i else None))"

definition example_env :: "nat \<times> nat \<Rightarrow> env" where
  "example_env ver =
     \<lparr>version_info = ver, root = None, graph_output_var = Some ''graph_out_0'',
      overridden_sources = Map.empty, tx_export = False,
      create_dup_top =
        (if version_ge ver (3, 11) then create_instruction ''COPY'' (Some 1) None
         else create_instruction ''DUP_TOP'' None None),
      create_call_function =
        (\<lambda>nargs push. [create_instruction ''CALL'' (Some (int nargs)) None]),
      create_rot_n =
        (\<lambda>n. if n \<le> 1 then Inr []
             else if version_ge ver (3, 11)
               then Inr (map (\<lambda>i. create_instruction ''SWAP'' (Some (int i)) None)
                          (rev [2..<Suc (nat n)]))
             else if (version_lt ver (3, 8) \<and> n \<ge> 4) \<or> (version_lt ver (3, 10) \<and> n \<ge> 5)
               then Inl AttributeError
             else if n = 2 then Inr [create_instruction ''ROT_TWO'' None None]
             else if n = 3 then Inr [create_instruction ''ROT_THREE'' None None]
             else if n = 4 then Inr [create_instruction ''ROT_FOUR'' None None]
             else Inr [create_instruction ''ROT_N'' (Some n) None]),
      bc_add_push_null = spec_add_push_null ver (example_bit_site ver False) example_set_bit,
      add_push_null_call_function_ex =
        spec_add_push_null ver (example_bit_site ver True) example_set_bit,
      is_safe_constant = (\<lambda>c. case c of PyObj _ \<Rightarrow> False | PyTuple _ \<Rightarrow> False | _ \<Rightarrow> True),
      rot_n_helper = (\<lambda>n. PyObj (nat n)),
      new_var = (\<lambda>uid names.
        (''tmp_'' @ replicate uid CHR ''i'', Suc uid, names @ [''tmp_'' @ replicate uid CHR ''i''])),
      import_source = (\<lambda>module_name st.
        Returns \<lparr>source_key = 0,
                 source_reconstruct = (\<lambda>s.
                   andthen (create_load_global module_name True s)
                     (\<lambda>inst s1. Returns PyNone (append_output inst s1)))\<rparr> st),
      AttrSource = (\<lambda>base member.
        \<lparr>source_key = Suc (source_key base),
         source_reconstruct = (\<lambda>s.
           andthen (source_reconstruct base s)
             (\<lambda>_ s1. Returns PyNone (extend_output [fst (create_load_attr member s1)]
                                      (snd (create_load_attr member s1)))))\<rparr>),
      as_tensor = (\<lambda>v. v\<lparr>vt_id := vt_id v + 1000, proxy_id := proxy_id v + 1000,
                          vt_class := TensorVariable\<rparr>),
      global_mangled_class_name = (\<lambda>v. ''__subclass_'' @ vt_str v)\<rparr>"

definition list_value :: "nat \<Rightarrow> variable_tracker" where
  "list_value i =
     (plain_value i OtherVariable)
       \<lparr>reconstruct := (\<lambda>st.
          Returns PyNone (append_output (create_instruction ''BUILD_LIST'' (Some 0) None) st))\<rparr>"

text \<open>Whether a call returned, rather than raised.\<close>

fun returned :: "'a outcome \<Rightarrow> bool" where
  "returned (Returns x st) = True"
| "returned (Raises e st) = False"

text \<open>
  A structural value that has a source (the local variable \<open>x\<close>), and a value that is a
  Python constant.
\<close>

definition sourced_value :: "nat \<Rightarrow> variable_tracker" where
  "sourced_value i = (list_value i)\<lparr>source := Some (local_source 7 ''x'')\<rparr>"

definition const_value :: "nat \<Rightarrow> pyval \<Rightarrow> variable_tracker" where
  "const_value i c = (plain_value i OtherVariable)\<lparr>python_constant := Some c\<rparr>"

section \<open>Theorems\<close>

text \<open>
  C6. For every instruction and every list of instructions, \<open>append_output\<close> and
  \<open>extend_output\<close> add them at the end of the instruction stream and set the
  top-of-stack descriptor to \<open>None\<close>, whatever it was; so the test
  \<open>self.top_of_stack is value\<close> made right afterwards fails for every value.
\<close>

theorem append_extend_output_clear_tos:
  "get_instructions (append_output inst st) = get_instructions st @ [inst]
   \<and> top_of_stack (append_output inst st) = None
   \<and> (\<forall>i. \<not> top_of_stack_is (append_output inst st) i)
   \<and> get_instructions (extend_output insts st) = get_instructions st @ insts
   \<and> top_of_stack (extend_output insts st) = None
   \<and> (\<forall>i. \<not> top_of_stack_is (extend_output insts st) i)"
  by (simp add: append_output_def extend_output_def clear_tos_def output_append_def
      output_extend_def get_instructions_def top_of_stack_is_def)

subsection \<open>Graph output slots\<close>

lemma add_graph_output_key: "fst (add_graph_output v st) = proxy_id v"
  by (simp add: add_graph_output_def Let_def)

lemma add_graph_output_present:
  "proxy_id v \<in> fst ` set (graph_outputs st) \<Longrightarrow> snd (add_graph_output v st) = st"
  by (simp add: add_graph_output_def Let_def)

lemma add_graph_output_absent:
  "proxy_id v \<notin> fst ` set (graph_outputs st) \<Longrightarrow>
   graph_outputs (snd (add_graph_output v st)) =
     graph_outputs st @ [(proxy_id v, \<lparr>index = length (graph_outputs st), variable = vt_id v\<rparr>)]"
  by (simp add: add_graph_output_def Let_def)

lemma add_graph_output_ok:
  "graph_outputs_ok (graph_outputs st) \<Longrightarrow>
   graph_outputs_ok (graph_outputs (snd (add_graph_output v st)))"
  by (cases "proxy_id v \<in> fst ` set (graph_outputs st)")
     (auto simp: add_graph_output_present add_graph_output_absent graph_outputs_ok_def)

lemma add_graph_outputs_ok:
  "graph_outputs_ok (graph_outputs st) \<Longrightarrow>
   graph_outputs_ok (graph_outputs (add_graph_outputs vs st))"
  by (induction vs arbitrary: st) (auto simp: add_graph_output_ok)

lemma add_graph_output_keys:
  "fst ` set (graph_outputs (snd (add_graph_output v st))) =
   insert (proxy_id v) (fst ` set (graph_outputs st))"
  by (cases "proxy_id v \<in> fst ` set (graph_outputs st)")
     (auto simp: add_graph_output_present add_graph_output_absent)

lemma add_graph_outputs_keys:
  "fst ` set (graph_outputs (add_graph_outputs vs st)) =
   fst ` set (graph_outputs st) \<union> proxy_id ` set vs"
  by (induction vs arbitrary: st) (auto simp: add_graph_output_keys)

lemma add_graph_output_extends:
  "\<exists>ys. graph_outputs (snd (add_graph_output v st)) = graph_outputs st @ ys"
  by (cases "proxy_id v \<in> fst ` set (graph_outputs st)")
     (auto simp: add_graph_output_present add_graph_output_absent)

lemma add_graph_outputs_extends:
  "\<exists>ys. graph_outputs (add_graph_outputs vs st) = graph_outputs st @ ys"
proof (induction vs arbitrary: st)
  case Nil
  then show ?case by simp
next
  case (Cons v vs)
  obtain ys where a: "graph_outputs (snd (add_graph_output v st)) = graph_outputs st @ ys"
    using add_graph_output_extends by blast
  obtain zs where b: "graph_outputs (add_graph_outputs vs (snd (add_graph_output v st)))
      = graph_outputs (snd (add_graph_output v st)) @ zs"
    using Cons.IH by blast
  show ?case using a b by simp
qed

lemma add_graph_outputs_append:
  "add_graph_outputs (vs @ ws) st = add_graph_outputs ws (add_graph_outputs vs st)"
  by (induction vs arbitrary: st) auto

text \<open>
  C3. Within one session (no graph output yet), after any sequence of requests
  \<open>add_graph_output\<close>: every identity key requested has exactly one entry, the indices of
  the entries are 0, 1, 2, ... in the order of assignment; a request for a key that has an
  entry returns the key and leaves the session as it is; a request for a new key appends
  an entry whose index is the number of entries so far; and further requests only append
  to the entries, so that no index is reused or reassigned.
\<close>

theorem add_graph_output_indices:
  assumes "graph_outputs st = []"
  shows "distinct (map fst (graph_outputs (add_graph_outputs vs st)))
    \<and> map (\<lambda>x. index (snd x)) (graph_outputs (add_graph_outputs vs st))
        = [0..<length (graph_outputs (add_graph_outputs vs st))]
    \<and> fst ` set (graph_outputs (add_graph_outputs vs st)) = proxy_id ` set vs
    \<and> (\<forall>v. proxy_id v \<in> proxy_id ` set vs \<longrightarrow>
          add_graph_output v (add_graph_outputs vs st) = (proxy_id v, add_graph_outputs vs st))
    \<and> (\<forall>v. proxy_id v \<notin> proxy_id ` set vs \<longrightarrow>
          graph_outputs (snd (add_graph_output v (add_graph_outputs vs st))) =
            graph_outputs (add_graph_outputs vs st) @
              [(proxy_id v, \<lparr>index = length (graph_outputs (add_graph_outputs vs st)),
                              variable = vt_id v\<rparr>)])
    \<and> (\<exists>ys. graph_outputs (add_graph_outputs (vs @ ws) st)
              = graph_outputs (add_graph_outputs vs st) @ ys)"
proof -
  let ?st = "add_graph_outputs vs st"
  have ok: "graph_outputs_ok (graph_outputs ?st)"
    using assms by (intro add_graph_outputs_ok) (simp add: graph_outputs_ok_def)
  have keys: "fst ` set (graph_outputs ?st) = proxy_id ` set vs"
    using assms by (simp add: add_graph_outputs_keys)
  have rep: "\<forall>v. proxy_id v \<in> proxy_id ` set vs \<longrightarrow> add_graph_output v ?st = (proxy_id v, ?st)"
    using keys add_graph_output_present add_graph_output_key by (metis prod.collapse)
  have new: "\<forall>v. proxy_id v \<notin> proxy_id ` set vs \<longrightarrow>
          graph_outputs (snd (add_graph_output v ?st)) =
            graph_outputs ?st @
              [(proxy_id v, \<lparr>index = length (graph_outputs ?st), variable = vt_id v\<rparr>)]"
    using keys add_graph_output_absent by metis
  have ext: "\<exists>ys. graph_outputs (add_graph_outputs (vs @ ws) st) = graph_outputs ?st @ ys"
    by (simp add: add_graph_outputs_append add_graph_outputs_extends)
  show ?thesis using ok keys rep new ext by (simp add: graph_outputs_ok_def)
qed

theorem add_graph_output_indices_witness:
  "graph_outputs (init_codegen Map.empty [] []) = []
   \<and> map (\<lambda>x. (fst x, index (snd x), variable (snd x)))
        (graph_outputs (add_graph_outputs
           [(plain_value 1 TensorVariable)\<lparr>proxy_id := 10\<rparr>,
            (plain_value 2 TensorVariable)\<lparr>proxy_id := 20\<rparr>,
            (plain_value 3 TensorVariable)\<lparr>proxy_id := 10\<rparr>]
           (init_codegen Map.empty [] [])))
      = [(10, 0, 1), (20, 1, 2)]
   \<and> distinct (map fst (graph_outputs (add_graph_outputs
           [(plain_value 1 TensorVariable)\<lparr>proxy_id := 10\<rparr>,
            (plain_value 2 TensorVariable)\<lparr>proxy_id := 20\<rparr>,
            (plain_value 3 TensorVariable)\<lparr>proxy_id := 10\<rparr>]
           (init_codegen Map.empty [] []))))"
  using add_graph_output_indices [of "init_codegen Map.empty [] []"
      "[(plain_value 1 TensorVariable)\<lparr>proxy_id := 10\<rparr>,
        (plain_value 2 TensorVariable)\<lparr>proxy_id := 20\<rparr>,
        (plain_value 3 TensorVariable)\<lparr>proxy_id := 10\<rparr>]" "[]"]
  by (simp add: init_codegen_def plain_value_def add_graph_output_def)


subsection \<open>The dispatcher: cache, source and structural reconstruction\<close>

lemma call_by_kind:
  assumes "served_by_kind v allow_cache st"
  shows "call env (VT v) allow_cache st =
           andthen (dispatch_kind env v allow_cache st)
             (\<lambda>_ st1. Returns () (st1\<lparr>top_of_stack := Some (vt_id v)\<rparr>))"
  using assms
  by (auto simp: call_def served_by_kind_def prefers_source_def split: if_splits option.splits)

lemma dispatch_structural:
  assumes "structural_kind env v"
  shows "dispatch_kind env v allow_cache st = codegen_structural env v allow_cache st"
  using assms by (auto simp: dispatch_kind_def structural_kind_def)

lemmas example_defs =
  call_def call_source_def call_reconstruct_def dispatch_kind_def codegen_structural_def
  safe_constant_def add_cache_def add_push_null_def andthen_def unimplemented_def
  top_of_stack_is_def tempvars_get_def create_load_def create_store_def
  append_output_def extend_output_def output_append_def output_extend_def clear_tos_def
  create_instruction_def create_load_const_def version_ge_def
  example_env_def init_codegen_def plain_value_def list_value_def local_source_def
  sourced_value_def const_value_def spec_add_push_null_def example_has_bit_def
  example_set_bit_def push_null_def null_bit_index_def example_bit_site_def

text \<open>
  C1 (as amended). For a tracked value that has a source and whose mutation type is
  \<open>ValueMutationExisting\<close>, and that is not a
  \<open>FunctionDecoratedByContextlibContextManagerVariable\<close>, a request with
  \<open>allow_cache=True\<close> never reaches the choice by kind, so never the structural
  reconstruction: it emits the duplicate-top when the value is the top-of-stack
  descriptor, the load of the value's temp slot when one is assigned, and otherwise
  exactly what the dispatcher emits for the value's source, whatever the prefer-source
  flag of the session.
\<close>

theorem call_mutated_reads_source:
  assumes "source v = Some s"
    and "mutation_type v = Some ValueMutationExisting"
    and "vt_class v \<noteq> FunctionDecoratedByContextlibContextManagerVariable"
  shows "call env (VT v) True st =
           (if top_of_stack_is st (vt_id v) then
              Returns () (output_append (create_dup_top env) st)
            else
              (case tempvars_get st (vt_id v) of
                 Some name \<Rightarrow>
                   (case create_load name st of
                      Inl e \<Rightarrow> Raises e st
                    | Inr inst \<Rightarrow>
                        Returns () ((output_append inst st)\<lparr>top_of_stack := Some (vt_id v)\<rparr>))
               | None \<Rightarrow> call env (Src s) True st))"
  using assms by (simp add: call_def split: option.splits)

theorem call_mutated_reads_source_witness:
  "call (example_env (3, 12))
     (VT ((sourced_value 1)\<lparr>mutation_type := Some ValueMutationExisting\<rparr>)) True
     ((init_codegen Map.empty [''x''] [])\<lparr>value_from_source := False\<rparr>)
   = call (example_env (3, 12)) (Src (local_source 7 ''x'')) True
       ((init_codegen Map.empty [''x''] [])\<lparr>value_from_source := False\<rparr>)
   \<and> cg_output (state_of (call (example_env (3, 12))
         (VT ((sourced_value 1)\<lparr>mutation_type := Some ValueMutationExisting\<rparr>)) True
         ((init_codegen Map.empty [''x''] [])\<lparr>value_from_source := False\<rparr>)))
       = [create_instruction ''LOAD_FAST'' None (Some (PyStr ''x''))]"
  using call_mutated_reads_source
    [where v = "(sourced_value 1)\<lparr>mutation_type := Some ValueMutationExisting\<rparr>"
       and s = "local_source 7 ''x''" and env = "example_env (3, 12)"
       and st = "(init_codegen Map.empty [''x''] [])\<lparr>value_from_source := False\<rparr>"]
  by (simp add: example_defs)

text \<open>
  C1 as stated fails. The value has the source \<open>x\<close> and the mutation type
  \<open>ValueMutationExisting\<close>; its \<open>reconstruct\<close> emits \<open>BUILD_LIST 0\<close>. Requested with
  \<open>allow_cache=False\<close> in a new session, the dispatcher emits the structural
  reconstruction and not the read of the source (\<open>LOAD_FAST x\<close>); the value is then the
  top-of-stack descriptor, and the next request, with \<open>allow_cache=True\<close>, emits a
  duplicate-top, not the read of the source.
\<close>

theorem call_mutated_counterexample:
  "returned (call (example_env (3, 12))
      (VT ((sourced_value 1)\<lparr>mutation_type := Some ValueMutationExisting\<rparr>)) False
      (init_codegen Map.empty [''x''] []))
   \<and> cg_output (state_of (call (example_env (3, 12))
        (VT ((sourced_value 1)\<lparr>mutation_type := Some ValueMutationExisting\<rparr>)) False
        (init_codegen Map.empty [''x''] [])))
      = [create_instruction ''BUILD_LIST'' (Some 0) None]
   \<and> cg_output (state_of (call (example_env (3, 12))
        (VT ((sourced_value 1)\<lparr>mutation_type := Some ValueMutationExisting\<rparr>)) True
        (state_of (call (example_env (3, 12))
           (VT ((sourced_value 1)\<lparr>mutation_type := Some ValueMutationExisting\<rparr>)) False
           (init_codegen Map.empty [''x''] [])))))
      = [create_instruction ''BUILD_LIST'' (Some 0) None,
         create_instruction ''COPY'' (Some 1) None]
   \<and> cg_output (state_of (call (example_env (3, 12)) (Src (local_source 7 ''x'')) True
        (init_codegen Map.empty [''x''] [])))
      = [create_instruction ''LOAD_FAST'' None (Some (PyStr ''x''))]"
  by (simp add: example_defs)

lemma call_sets_tos:
  assumes "call env (VT v) allow_cache st = Returns x st1"
    and "\<not> served_from_source v allow_cache st"
  shows "top_of_stack st1 = Some (vt_id v)"
proof (cases "allow_cache \<and> top_of_stack_is st (vt_id v)")
  case True
  with assms(1) show ?thesis
    by (auto simp: call_def output_append_def top_of_stack_is_def)
next
  case notos: False
  show ?thesis
  proof (cases "allow_cache \<and> tempvars_get st (vt_id v) \<noteq> None")
    case True
    with assms(1) notos show ?thesis
      by (auto simp: call_def split: sum.splits)
  next
    case False
    with notos assms(2) have k: "served_by_kind v allow_cache st"
      by (auto simp: served_by_kind_def served_from_source_def)
    show ?thesis using assms(1)
      by (auto simp: call_by_kind [OF k] andthen_def split: outcome.splits)
  qed
qed

text \<open>
  C2 (as amended). When a request for a tracked value returned and was not served from
  the value's source, a request for the same value with \<open>allow_cache=True\<close> right
  after it emits exactly one duplicate-top instruction and changes nothing else.
\<close>

theorem call_twice_dup_top:
  assumes "call env (VT v) allow_cache st = Returns x st1"
    and "\<not> served_from_source v allow_cache st"
  shows "call env (VT v) True st1 = Returns () (output_append (create_dup_top env) st1)"
  using call_sets_tos [OF assms] by (simp add: call_def top_of_stack_is_def)

theorem call_twice_dup_top_witness:
  "\<not> served_from_source (const_value 1 (PyInt 5)) True (init_codegen Map.empty [] [])
   \<and> returned (call (example_env (3, 12)) (VT (const_value 1 (PyInt 5))) True
        (init_codegen Map.empty [] []))
   \<and> cg_output (state_of (call (example_env (3, 12)) (VT (const_value 1 (PyInt 5))) True
        (state_of (call (example_env (3, 12)) (VT (const_value 1 (PyInt 5))) True
           (init_codegen Map.empty [] [])))))
      = [create_instruction ''LOAD_CONST'' None (Some (PyInt 5)),
         create_instruction ''COPY'' (Some 1) None]"
  using call_twice_dup_top
    [where v = "const_value 1 (PyInt 5)" and env = "example_env (3, 12)"
       and allow_cache = True and st = "init_codegen Map.empty [] []" and x = "()"
       and ?st1.0 = "state_of (call (example_env (3, 12)) (VT (const_value 1 (PyInt 5))) True
           (init_codegen Map.empty [] []))"]
  by (simp add: example_defs served_from_source_def prefers_source_def)

text \<open>
  C2 as stated fails for a value served from its source: the source branch clears the
  top-of-stack descriptor, so the second request of the same value, with caching enabled
  and nothing emitted in between, reads the source again (\<open>LOAD_FAST x\<close> twice) and
  emits no duplicate-top.
\<close>

theorem call_twice_counterexample:
  "returned (call (example_env (3, 12)) (VT (sourced_value 1)) True
      (init_codegen Map.empty [''x''] []))
   \<and> cg_output (state_of (call (example_env (3, 12)) (VT (sourced_value 1)) True
        (init_codegen Map.empty [''x''] [])))
      = [create_instruction ''LOAD_FAST'' None (Some (PyStr ''x''))]
   \<and> cg_output (state_of (call (example_env (3, 12)) (VT (sourced_value 1)) True
        (state_of (call (example_env (3, 12)) (VT (sourced_value 1)) True
           (init_codegen Map.empty [''x''] [])))))
      = [create_instruction ''LOAD_FAST'' None (Some (PyStr ''x'')),
         create_instruction ''LOAD_FAST'' None (Some (PyStr ''x''))]"
  by (simp add: example_defs)





text \<open>
  C8. When a value matches none of the specialised kinds, the request reaches the choice
  by kind, and the value's \<open>reconstruct\<close> raises \<open>NotImplementedError\<close>, the dispatcher
  raises the error \<open>Unsupported\<close> whose message is \<open>reconstruct:\<close> followed by the
  value; the session is left as it was at the raise: no duplicate-top, no store and no
  temp slot are added, and the top-of-stack descriptor is not set.
\<close>

theorem call_cannot_reconstruct:
  assumes "structural_kind env v"
    and "served_by_kind v allow_cache st"
    and "reconstruct v (st\<lparr>uses := (uses st)(vt_id v := uses st (vt_id v) + 1)\<rparr>)
           = Raises NotImplementedError st1"
  shows "call env (VT v) allow_cache st
           = Raises (Unsupported (''reconstruct: '' @ vt_str v)) st1"
  using assms
  by (simp add: call_by_kind dispatch_structural codegen_structural_def call_reconstruct_def
      andthen_def unimplemented_def)

theorem call_cannot_reconstruct_witness:
  "structural_kind (example_env (3, 12)) (plain_value 1 OtherVariable)
   \<and> served_by_kind (plain_value 1 OtherVariable) True (init_codegen [1 \<mapsto> None] [] [])
   \<and> call (example_env (3, 12)) (VT (plain_value 1 OtherVariable)) True
        (init_codegen [1 \<mapsto> None] [] [])
      = Raises (Unsupported ''reconstruct: value'')
          ((init_codegen [1 \<mapsto> None] [] [])\<lparr>uses := (\<lambda>_. 0)(1 := 1)\<rparr>)
   \<and> cg_output (state_of (call (example_env (3, 12)) (VT (plain_value 1 OtherVariable)) True
        (init_codegen [1 \<mapsto> None] [] []))) = []"
  using call_cannot_reconstruct
    [where env = "example_env (3, 12)" and v = "plain_value 1 OtherVariable"
       and allow_cache = True and st = "init_codegen [1 \<mapsto> None] [] []"
       and ?st1.0 = "(init_codegen [1 \<mapsto> None] [] [])\<lparr>uses := (\<lambda>_. 0)(1 := 1)\<rparr>"]
  by (simp add: example_defs structural_kind_def served_by_kind_def prefers_source_def)

subsection \<open>Restoring the stack\<close>

text \<open>
  C9. \<open>restore_stack\<close> leaves the prefer-source flag as it was before the call, on both
  ways out: when it returns and when the reconstruction of a stack value raises.
\<close>

theorem restore_stack_restores_flag:
  "value_from_source (state_of (restore_stack env stack_values vfs st)) = value_from_source st"
  by (simp add: restore_stack_def Let_def split: outcome.splits)

theorem restore_stack_restores_flag_witness:
  "restore_stack (example_env (3, 12))
     [VT (const_value 1 (PyInt 5)), VT (plain_value 2 OtherVariable)] False
     (init_codegen Map.empty [] [])
   = Raises (Unsupported ''reconstruct: value'')
       ((init_codegen Map.empty [] [])
          \<lparr>top_of_stack := Some 1, uses := (\<lambda>_. 0)(2 := 1),
            cg_output := [create_instruction ''LOAD_CONST'' None (Some (PyInt 5))]\<rparr>)
   \<and> value_from_source (state_of (restore_stack (example_env (3, 12))
        [VT (const_value 1 (PyInt 5)), VT (plain_value 2 OtherVariable)] False
        (init_codegen Map.empty [] []))) = True"
  using restore_stack_restores_flag
    [where env = "example_env (3, 12)"
       and stack_values = "[VT (const_value 1 (PyInt 5)), VT (plain_value 2 OtherVariable)]"
       and vfs = False and st = "init_codegen Map.empty [] []"]
  by (simp add: example_defs restore_stack_def)

subsection \<open>The null placeholder\<close>

text \<open>
  C10. Before Python 3.13, \<open>add_push_null\<close> runs its generator on the session with the
  top-of-stack descriptor cleared: in that state the test \<open>self.top_of_stack is value\<close>
  fails for every value, so a request made by the generator cannot take the
  duplicate-top path for a value that was on top of the stack before; the result of
  \<open>add_push_null\<close> does not depend on the descriptor it was called with.
\<close>

theorem add_push_null_clears_tos_first:
  assumes "version_lt (version_info env) (3, 13)"
  shows "(\<forall>i. \<not> top_of_stack_is (clear_tos st) i)
    \<and> add_push_null env gen_fn call_function_ex st
        = add_push_null env (\<lambda>_. gen_fn (clear_tos st)) call_function_ex st
    \<and> add_push_null env gen_fn call_function_ex (st\<lparr>top_of_stack := t\<rparr>)
        = add_push_null env gen_fn call_function_ex st"
  using assms
  by (simp add: add_push_null_def clear_tos_def top_of_stack_is_def Let_def)

theorem add_push_null_clears_tos_first_witness:
  "version_lt (version_info (example_env (3, 12))) (3, 13)
   \<and> cg_output (state_of (call (example_env (3, 12)) (VT (const_value 1 (PyInt 5))) True
        ((init_codegen Map.empty [] [])\<lparr>top_of_stack := Some 1\<rparr>)))
      = [create_instruction ''COPY'' (Some 1) None]
   \<and> cg_output (state_of (add_push_null (example_env (3, 12))
        (call (example_env (3, 12)) (VT (const_value 1 (PyInt 5))) True) False
        ((init_codegen Map.empty [] [])\<lparr>top_of_stack := Some 1\<rparr>)))
      = [create_instruction ''PUSH_NULL'' None None,
         create_instruction ''LOAD_CONST'' None (Some (PyInt 5))]
   \<and> add_push_null (example_env (3, 12))
        (call (example_env (3, 12)) (VT (const_value 1 (PyInt 5))) True) False
        ((init_codegen Map.empty [] [])\<lparr>top_of_stack := Some 1\<rparr>)
      = add_push_null (example_env (3, 12))
        (call (example_env (3, 12)) (VT (const_value 1 (PyInt 5))) True) False
        (init_codegen Map.empty [] [])"
  using add_push_null_clears_tos_first
    [where env = "example_env (3, 12)"
       and gen_fn = "call (example_env (3, 12)) (VT (const_value 1 (PyInt 5))) True"
       and call_function_ex = False and st = "init_codegen Map.empty [] []" and t = "Some 1"]
  by (simp add: example_defs)

lemma add_push_null_captures:
  assumes "gen_fn (if version_lt (version_info env) (3, 13) then clear_tos st else st)
             = Returns x st1"
    and "cg_output st1 = cg_output st @ added"
  shows "add_push_null env gen_fn call_function_ex st =
           Returns ()
             ((if version_ge (version_info env) (3, 13) then clear_tos else (\<lambda>s. s))
                (st1\<lparr>cg_output := cg_output st @
                   (if call_function_ex then add_push_null_call_function_ex env added
                    else bc_add_push_null env added)\<rparr>))"
  using assms
  by (simp add: add_push_null_def Let_def andthen_def output_extend_def clear_tos_def)

text \<open>
  C5. \<open>add_push_null\<close>, in both modes (\<open>call_function_ex\<close> or not), runs its generator
  (before 3.13 on the session with the descriptor cleared); when the generator returns
  having appended the instructions \<open>added\<close> to the stream, the stream becomes the
  instructions before the call followed by \<open>added\<close> with the null placeholder spliced
  in, and the rest of the session is as the generator left it. With the splice as the
  spec gives it: nothing is added before 3.11; otherwise the bit of the callable-loading
  instruction is set when it carries one, and no instruction is added; otherwise the
  placeholder is pushed before \<open>added\<close> on 3.11 and 3.12 and after \<open>added\<close> on 3.13 and
  later. On 3.13 and later the top-of-stack descriptor is \<open>None\<close> when \<open>add_push_null\<close>
  returns.
\<close>

theorem add_push_null_splices:
  assumes "gen_fn (if version_lt (version_info env) (3, 13) then clear_tos st else st)
             = Returns x st1"
    and "cg_output st1 = cg_output st @ added"
    and "bc_add_push_null env = spec_add_push_null (version_info env) bit_site with_bit"
    and "add_push_null_call_function_ex env
           = spec_add_push_null (version_info env) bit_site_ex with_bit"
  shows "add_push_null env gen_fn call_function_ex st =
           Returns ()
             ((if version_ge (version_info env) (3, 13) then clear_tos else (\<lambda>s. s))
                (st1\<lparr>cg_output := cg_output st @
                   (if version_lt (version_info env) (3, 11) then added
                    else
                      (case null_bit_index (if call_function_ex then bit_site_ex else bit_site)
                              added of
                         Some i \<Rightarrow> added[i := with_bit (added ! i)]
                       | None \<Rightarrow>
                           if version_ge (version_info env) (3, 13)
                           then added @ [push_null]
                           else push_null # added))\<rparr>))"
proof -
  have "add_push_null env gen_fn call_function_ex st =
           Returns ()
             ((if version_ge (version_info env) (3, 13) then clear_tos else (\<lambda>s. s))
                (st1\<lparr>cg_output := cg_output st @
                   (if call_function_ex then add_push_null_call_function_ex env added
                    else bc_add_push_null env added)\<rparr>))"
    using add_push_null_captures [of gen_fn env st x st1 added call_function_ex] assms(1,2)
    by simp
  then show ?thesis
    using assms(3,4) by (simp add: spec_add_push_null_def)
qed

theorem add_push_null_splices_witness:
  "bc_add_push_null (example_env (3, 13))
     = spec_add_push_null (version_info (example_env (3, 13)))
         (example_bit_site (3, 13) False) example_set_bit
   \<and> add_push_null_call_function_ex (example_env (3, 12))
     = spec_add_push_null (version_info (example_env (3, 12)))
         (example_bit_site (3, 12) True) example_set_bit
   \<and> add_push_null (example_env (3, 13))
        (call (example_env (3, 13)) (VT (const_value 1 (PyInt 5))) True) False
        ((init_codegen Map.empty [] [])\<lparr>cg_output := [create_instruction ''NOP'' None None]\<rparr>)
      = Returns ()
          ((init_codegen Map.empty [] [])
             \<lparr>cg_output := [create_instruction ''NOP'' None None,
                             create_instruction ''LOAD_CONST'' None (Some (PyInt 5)),
                             create_instruction ''PUSH_NULL'' None None]\<rparr>)
   \<and> add_push_null (example_env (3, 12))
        (\<lambda>s. Returns ()
           (append_output (create_instruction ''LOAD_GLOBAL'' None (Some (PyStr ''f''))) s))
        True
        ((init_codegen Map.empty [] [])
           \<lparr>top_of_stack := Some 1,
            cg_output := [create_instruction ''NOP'' None None]\<rparr>)
      = Returns ()
          ((init_codegen Map.empty [] [])
             \<lparr>cg_output := [create_instruction ''NOP'' None None,
                             create_instruction ''LOAD_GLOBAL'' (Some 1) (Some (PyStr ''f''))]\<rparr>)
   \<and> cg_output (state_of (add_push_null (example_env (3, 12))
        (call (example_env (3, 12)) (VT (const_value 1 (PyInt 5))) True) True
        ((init_codegen Map.empty [] [])\<lparr>cg_output := [create_instruction ''NOP'' None None]\<rparr>)))
      = [create_instruction ''NOP'' None None,
         create_instruction ''PUSH_NULL'' None None,
         create_instruction ''LOAD_CONST'' None (Some (PyInt 5))]
   \<and> cg_output (state_of (add_push_null (example_env (3, 9))
        (call (example_env (3, 9)) (VT (const_value 1 (PyInt 5))) True) True
        ((init_codegen Map.empty [] [])\<lparr>cg_output := [create_instruction ''NOP'' None None]\<rparr>)))
      = [create_instruction ''NOP'' None None,
         create_instruction ''LOAD_CONST'' None (Some (PyInt 5))]"
  using add_push_null_splices
    [where env = "example_env (3, 13)"
       and gen_fn = "call (example_env (3, 13)) (VT (const_value 1 (PyInt 5))) True"
       and call_function_ex = False
       and st = "(init_codegen Map.empty [] [])\<lparr>cg_output := [create_instruction ''NOP'' None None]\<rparr>"
       and x = "()"
       and ?st1.0 = "(init_codegen Map.empty [] [])
             \<lparr>top_of_stack := Some 1,
              cg_output := [create_instruction ''NOP'' None None,
                            create_instruction ''LOAD_CONST'' None (Some (PyInt 5))]\<rparr>"
       and added = "[create_instruction ''LOAD_CONST'' None (Some (PyInt 5))]"
       and bit_site = "example_bit_site (3, 13) False"
       and bit_site_ex = "example_bit_site (3, 13) True" and with_bit = example_set_bit]
    add_push_null_splices
    [where env = "example_env (3, 12)"
       and gen_fn = "\<lambda>s. Returns ()
           (append_output (create_instruction ''LOAD_GLOBAL'' None (Some (PyStr ''f''))) s)"
       and call_function_ex = True
       and st = "(init_codegen Map.empty [] [])
           \<lparr>top_of_stack := Some 1,
            cg_output := [create_instruction ''NOP'' None None]\<rparr>"
       and x = "()"
       and ?st1.0 = "(init_codegen Map.empty [] [])
             \<lparr>cg_output := [create_instruction ''NOP'' None None,
                            create_instruction ''LOAD_GLOBAL'' None (Some (PyStr ''f''))]\<rparr>"
       and added = "[create_instruction ''LOAD_GLOBAL'' None (Some (PyStr ''f''))]"
       and bit_site = "example_bit_site (3, 12) False"
       and bit_site_ex = "example_bit_site (3, 12) True" and with_bit = example_set_bit]
  by (simp add: example_defs)

subsection \<open>Rotation without a native instruction\<close>

text \<open>
  C7. For every depth \<open>n\<close> for which \<open>create_rot_n\<close> raises \<open>AttributeError\<close> (the
  version has no rotate instruction of that depth), \<open>rot_n\<close> returns the fallback:
  \<open>BUILD_TUPLE n\<close>, the load of the constant \<open>rot_n_helper(n)\<close>, the instructions of
  \<open>create_rot_n(2)\<close>, \<open>CALL_FUNCTION_EX 0\<close> and \<open>UNPACK_SEQUENCE n\<close>.
\<close>

theorem rot_n_fallback:
  assumes "create_rot_n env n = Inl AttributeError"
    and "create_rot_n env 2 = Inr swap"
  shows "rot_n env n =
           Inr ([create_instruction ''BUILD_TUPLE'' (Some n) None,
                 create_load_const_unchecked (rot_n_helper env n)]
                @ swap
                @ [create_instruction ''CALL_FUNCTION_EX'' (Some 0) None,
                   create_instruction ''UNPACK_SEQUENCE'' (Some n) None])"
  using assms by (simp add: rot_n_def)

theorem rot_n_fallback_witness:
  "create_rot_n (example_env (3, 7)) 5 = Inl AttributeError
   \<and> create_rot_n (example_env (3, 7)) 2 = Inr [create_instruction ''ROT_TWO'' None None]
   \<and> rot_n (example_env (3, 7)) 5 =
        Inr [create_instruction ''BUILD_TUPLE'' (Some 5) None,
             create_instruction ''LOAD_CONST'' None (Some (PyObj 5)),
             create_instruction ''ROT_TWO'' None None,
             create_instruction ''CALL_FUNCTION_EX'' (Some 0) None,
             create_instruction ''UNPACK_SEQUENCE'' (Some 5) None]"
  using rot_n_fallback
    [where env = "example_env (3, 7)" and n = 5
       and swap = "[create_instruction ''ROT_TWO'' None None]"]
  by (simp add: example_defs create_load_const_unchecked_def)

end
